theory Spec2Isabelle
  imports Main "HOL-Library.Finite_Map" "HOL-Library.Multiset"
begin

section \<open>The student record store and the summary handler of \<open>main.go\<close>\<close>

text \<open>
  The program is one Go file of HTTP handlers over a process-wide table
  \<^verbatim>\<open>students = make(map[int]Student)\<close> guarded by one mutex. Every handler runs its
  reads and writes of the table inside the lock, so a handler is modelled as one atomic
  function from the table before the request to a result and the table after it.

  What the handlers receive from library code is an input of the model:
  \<^item> the outcome of \<^verbatim>\<open>json.NewDecoder(r.Body).Decode(&student)\<close> is a \<open>Student option\<close>
    (\<open>None\<close> when \<^verbatim>\<open>err != nil\<close>);
  \<^item> the outcome of \<^verbatim>\<open>strconv.Atoi(params["id"])\<close> is an \<open>int option\<close>;
  \<^item> \<^verbatim>\<open>json.Unmarshal\<close> of one line into the chunk struct is a function
    \<open>string \<Rightarrow> chunk option\<close>;
  \<^item> the outcome of \<^verbatim>\<open>client.Do(req)\<close> is a function from the prompt to an \<open>upstream\<close>
    value.
\<close>

subsection \<open>Data\<close>

text \<open>
  \<^verbatim>\<open>type Student struct { ID int; Name string; Age int; Email string }\<close>. Go's \<^verbatim>\<open>int\<close>
  has 64 bits here; the one computation on it is \<^verbatim>\<open>len(students) + 1\<close>, which cannot wrap
  for a table that fits in memory, so the fields are integers without a bound.
\<close>

record Student =
  ID :: int
  Name :: string
  Age :: int
  Email :: string

text \<open>The table: a Go map is a finite map; \<^verbatim>\<open>len(students)\<close> is the number of keys.\<close>

type_synonym store = "(int, Student) fmap"

definition len :: "store \<Rightarrow> int" where
  "len students = int (fcard (fmdom students))"

text \<open>
  Every \<^verbatim>\<open>http.Error(w, msg, code); return\<close> of the source is one constructor;
  \<open>http_status\<close> and \<open>http_message\<close> give the code and the message it writes.
\<close>

datatype error =
    InvalidIdError
  | ValidationError
  | NotFoundError
  | UpstreamUnavailableError string
  | UpstreamCallError
  | UpstreamStatusError int
  | StreamDecodeError
  | StreamReadError

text \<open>What a handler writes when it does not fail, with the status it is sent under.\<close>

datatype reply =
    Created Student
  | StudentList "Student multiset"
  | Found Student
  | Updated Student
  | NoContent
  | Summary string

text \<open>\<^verbatim>\<open>fmt.Sprintf("%d", n)\<close>: the decimal digits of an integer.\<close>

fun dec_nat :: "nat \<Rightarrow> string" where
  "dec_nat n =
     (if n < 10 then [char_of (48 + n)]
      else dec_nat (n div 10) @ [char_of (48 + n mod 10)])"

declare dec_nat.simps [simp del]

definition dec_int :: "int \<Rightarrow> string" where
  "dec_int i = (if i < 0 then CHR ''-'' # dec_nat (nat (- i)) else dec_nat (nat i))"

fun http_status :: "error \<Rightarrow> nat" where
  "http_status InvalidIdError = 400"
| "http_status ValidationError = 400"
| "http_status NotFoundError = 404"
| "http_status (UpstreamUnavailableError e) = 500"
| "http_status UpstreamCallError = 500"
| "http_status (UpstreamStatusError code) = 500"
| "http_status StreamDecodeError = 500"
| "http_status StreamReadError = 500"

fun http_message :: "error \<Rightarrow> string" where
  "http_message InvalidIdError = ''Invalid student ID''"
| "http_message ValidationError = ''Invalid student data''"
| "http_message NotFoundError = ''Student not found''"
| "http_message (UpstreamUnavailableError e) = ''Failed to call Ollama API: '' @ e"
| "http_message UpstreamCallError = ''Failed to call Ollama API''"
| "http_message (UpstreamStatusError code) = ''Ollama returned status '' @ dec_int code"
| "http_message StreamDecodeError = ''Failed to parse Ollama response chunk''"
| "http_message StreamReadError = ''Error reading Ollama response stream''"

fun reply_status :: "reply \<Rightarrow> nat" where
  "reply_status (Created s) = 201"
| "reply_status (StudentList l) = 200"
| "reply_status (Found s) = 200"
| "reply_status (Updated s) = 200"
| "reply_status NoContent = 204"
| "reply_status (Summary t) = 200"

subsection \<open>The CRUD handlers\<close>

text \<open>
  The check both \<^verbatim>\<open>createStudent\<close> and \<^verbatim>\<open>updateStudent\<close> make on the decoded body:
  \<^verbatim>\<open>err != nil || student.Name == "" || student.Email == "" || student.Age <= 0\<close>.
\<close>

definition invalid :: "Student option \<Rightarrow> bool" where
  "invalid body =
     (case body of
        None \<Rightarrow> True
      | Some student \<Rightarrow> Name student = [] \<or> Email student = [] \<or> Age student \<le> 0)"

definition createStudent :: "store \<Rightarrow> Student option \<Rightarrow> (error + reply) \<times> store" where
  "createStudent students body =
     (if invalid body then (Inl ValidationError, students)
      else
        let student = (the body)\<lparr>ID := len students + 1\<rparr>
        in (Inr (Created student), fmupd (ID student) student students))"

text \<open>
  \<^verbatim>\<open>getStudents\<close> appends the values in the iteration order of the Go map, which the
  language leaves unspecified: the reply is the list up to order.
\<close>

definition getStudents :: "store \<Rightarrow> (error + reply) \<times> store" where
  "getStudents students =
     (Inr (StudentList (mset (map snd (sorted_list_of_fmap students)))), students)"

definition getStudent :: "store \<Rightarrow> int option \<Rightarrow> (error + reply) \<times> store" where
  "getStudent students idp =
     (case idp of
        None \<Rightarrow> (Inl InvalidIdError, students)
      | Some i \<Rightarrow>
          (case fmlookup students i of
             None \<Rightarrow> (Inl NotFoundError, students)
           | Some student \<Rightarrow> (Inr (Found student), students)))"

definition updateStudent ::
  "store \<Rightarrow> int option \<Rightarrow> Student option \<Rightarrow> (error + reply) \<times> store" where
  "updateStudent students idp body =
     (case idp of
        None \<Rightarrow> (Inl InvalidIdError, students)
      | Some i \<Rightarrow>
          if invalid body then (Inl ValidationError, students)
          else
            (case fmlookup students i of
               None \<Rightarrow> (Inl NotFoundError, students)
             | Some old \<Rightarrow>
                 let updated = (the body)\<lparr>ID := i\<rparr>
                 in (Inr (Updated updated), fmupd i updated students)))"

definition deleteStudent :: "store \<Rightarrow> int option \<Rightarrow> (error + reply) \<times> store" where
  "deleteStudent students idp =
     (case idp of
        None \<Rightarrow> (Inl InvalidIdError, students)
      | Some i \<Rightarrow>
          (case fmlookup students i of
             None \<Rightarrow> (Inl NotFoundError, students)
           | Some old \<Rightarrow> (Inr NoContent, fmdrop i students)))"

subsection \<open>The summary handler\<close>

text \<open>
  The chunk struct of the loop body:
  \<^verbatim>\<open>struct { Response string `json:"response"`; Done bool `json:"done"` }\<close>.
\<close>

record chunk =
  Response :: string
  Done :: bool

text \<open>
  \<^verbatim>\<open>bufio.Scanner\<close> over the response body, at the granularity of its tokens. The body is
  the sequence of what the remaining reads produce: a line (a token of the default split
  function), or a read error other than \<^verbatim>\<open>io.EOF\<close>. The scanner latches a read error and
  keeps delivering the tokens it has buffered; \<^verbatim>\<open>Scan\<close> returns false when nothing is
  left, and \<^verbatim>\<open>Err\<close> returns the latched error. A body that ends with \<^verbatim>\<open>io.EOF\<close> is a
  list without \<open>ReadError\<close>.
\<close>

datatype event = Token string | ReadError

datatype scanner = Scanner (pending: "event list") (err: bool)

function Scan :: "scanner \<Rightarrow> string option \<times> scanner" where
  "Scan (Scanner [] e) = (None, Scanner [] e)"
| "Scan (Scanner (ReadError # es) e) = Scan (Scanner es True)"
| "Scan (Scanner (Token line # es) e) = (Some line, Scanner es e)"
  by pat_completeness auto
termination
  by (relation "measure (\<lambda>sc. length (pending sc))") auto

text \<open>
  The outcome of \<^verbatim>\<open>client.Do(req)\<close>: an error, or a response with its status code and
  body.
\<close>

datatype upstream = CallFailed string | Responded int "event list"

text \<open>
  \<^verbatim>\<open>fmt.Sprintf("Summarize this student profile: Name: %s, Age: %d, Email: %s", ...)\<close>
\<close>

definition prompt :: "Student \<Rightarrow> string" where
  "prompt student =
     ''Summarize this student profile: Name: '' @ Name student @
     '', Age: '' @ dec_int (Age student) @ '', Email: '' @ Email student"

text \<open>
  The loop \<^verbatim>\<open>for scanner.Scan() { ... }\<close> with the check of \<^verbatim>\<open>scanner.Err()\<close> that follows
  it. \<open>fullResponse\<close> is the builder's content so far. The loop returns from the handler
  when a line does not unmarshal, leaves by \<^verbatim>\<open>break\<close> after a chunk with \<open>Done\<close>, and
  leaves when \<^verbatim>\<open>Scan\<close> returns false; the result comes with the scanner as the loop left
  it.
\<close>

definition after_loop :: "scanner \<Rightarrow> string \<Rightarrow> (error + reply) \<times> scanner" where
  "after_loop sc fullResponse =
     (if err sc then (Inl StreamReadError, sc) else (Inr (Summary fullResponse), sc))"

function read_chunks ::
  "(string \<Rightarrow> chunk option) \<Rightarrow> scanner \<Rightarrow> string \<Rightarrow> (error + reply) \<times> scanner" where
  "read_chunks unmarshal sc fullResponse =
     (case Scan sc of
        (None, sc') \<Rightarrow> after_loop sc' fullResponse
      | (Some line, sc') \<Rightarrow>
          (case unmarshal line of
             None \<Rightarrow> (Inl StreamDecodeError, sc')
           | Some chunk \<Rightarrow>
               if Done chunk then after_loop sc' (fullResponse @ Response chunk)
               else read_chunks unmarshal sc' (fullResponse @ Response chunk)))"
  by pat_completeness auto
termination
proof (relation "measure (\<lambda>(unmarshal, sc, fullResponse). length (pending sc))")
  have shorter: "length (pending sc') < length (pending sc)"
    if "Scan sc = (Some line, sc')" for sc line sc'
    using that by (induction sc rule: Scan.induct) auto
  fix unmarshal :: "string \<Rightarrow> chunk option" and sc sc' :: scanner
    and fullResponse line :: string and x :: "string option" and c :: chunk
  assume "(x, sc') = Scan sc" and "x = Some line"
  then have "Scan sc = (Some line, sc')" by simp
  then show "((unmarshal, sc', fullResponse @ Response c), (unmarshal, sc, fullResponse))
      \<in> measure (\<lambda>(unmarshal, sc, fullResponse). length (pending sc))"
    by (simp add: shorter)
qed simp

declare read_chunks.simps [simp del]

text \<open>
  \<^verbatim>\<open>getStudentSummary\<close>. The third component of the result is the part of the response
  body that no \<^verbatim>\<open>Scan\<close> has delivered when the handler returns (\<open>None\<close> when there is no
  response). \<^verbatim>\<open>json.Marshal\<close> of the request map (strings and numbers) and
  \<^verbatim>\<open>http.NewRequest\<close> with the constant method and URL do not fail, so their error
  branches are not part of the model; model name, temperature, top_p and max_tokens are
  constants of the request and the prompt is the one part of it that varies.
\<close>

definition getStudentSummary ::
  "store \<Rightarrow> int option \<Rightarrow> (string \<Rightarrow> upstream) \<Rightarrow> (string \<Rightarrow> chunk option) \<Rightarrow>
     (error + reply) \<times> store \<times> event list option" where
  "getStudentSummary students idp client_Do unmarshal =
     (case idp of
        None \<Rightarrow> (Inl InvalidIdError, students, None)
      | Some i \<Rightarrow>
          (case fmlookup students i of
             None \<Rightarrow> (Inl NotFoundError, students, None)
           | Some student \<Rightarrow>
               (case client_Do (prompt student) of
                  CallFailed e \<Rightarrow> (Inl (UpstreamUnavailableError e), students, None)
                | Responded code body \<Rightarrow>
                    if code \<noteq> 200 then (Inl (UpstreamStatusError code), students, Some body)
                    else
                      let (r, sc) = read_chunks unmarshal (Scanner body False) []
                      in (r, students, Some (pending sc)))))"

text \<open>
  The repository holds a second version of the program, with the same table and CRUD
  handlers (it answers a body that does not decode with the message \<^verbatim>\<open>Invalid input\<close>
  instead of \<^verbatim>\<open>Invalid student data\<close>, under the same status 400). Its
  \<^verbatim>\<open>getStudentSummary\<close> builds another prompt, calls \<^verbatim>\<open>http.Post\<close>, answers a failed call
  without the error's text (\<open>UpstreamCallError\<close>), and goes from the call to the scanner with no check of
  \<^verbatim>\<open>resp.StatusCode\<close>; the loop and the check of \<^verbatim>\<open>scanner.Err()\<close> are the same.
\<close>

definition prompt_part_000 :: "Student \<Rightarrow> string" where
  "prompt_part_000 student =
     ''Provide a concise summary of the student profile:'' @ [CHR 0x0A] @
     ''Name: '' @ Name student @ [CHR 0x0A] @
     ''Age: '' @ dec_int (Age student) @ [CHR 0x0A] @
     ''Email: '' @ Email student @ [CHR 0x0A]"

definition getStudentSummary_part_000 ::
  "store \<Rightarrow> int option \<Rightarrow> (string \<Rightarrow> upstream) \<Rightarrow> (string \<Rightarrow> chunk option) \<Rightarrow>
     (error + reply) \<times> store \<times> event list option" where
  "getStudentSummary_part_000 students idp http_Post unmarshal =
     (case idp of
        None \<Rightarrow> (Inl InvalidIdError, students, None)
      | Some i \<Rightarrow>
          (case fmlookup students i of
             None \<Rightarrow> (Inl NotFoundError, students, None)
           | Some student \<Rightarrow>
               (case http_Post (prompt_part_000 student) of
                  CallFailed e \<Rightarrow> (Inl UpstreamCallError, students, None)
                | Responded code body \<Rightarrow>
                    let (r, sc) = read_chunks unmarshal (Scanner body False) []
                    in (r, students, Some (pending sc)))))"

subsection \<open>Reachable tables\<close>

text \<open>
  The table starts empty (\<^verbatim>\<open>make(map[int]Student)\<close>) and changes only through the
  handlers that \<^verbatim>\<open>main\<close> registers.
\<close>

inductive reachable :: "store \<Rightarrow> bool" where
  initial: "reachable fmempty"
| create: "reachable s \<Longrightarrow> reachable (snd (createStudent s body))"
| list: "reachable s \<Longrightarrow> reachable (snd (getStudents s))"
| get: "reachable s \<Longrightarrow> reachable (snd (getStudent s idp))"
| update: "reachable s \<Longrightarrow> reachable (snd (updateStudent s idp body))"
| delete: "reachable s \<Longrightarrow> reachable (snd (deleteStudent s idp))"
| summary: "reachable s \<Longrightarrow> reachable (fst (snd (getStudentSummary s idp client_Do unmarshal)))"

text \<open>
  The invariant of the data model: every stored student has a positive id that is the key
  it is stored under, a non-empty name and email, and a positive age.
\<close>

definition well_formed :: "int \<Rightarrow> Student \<Rightarrow> bool" where
  "well_formed k student \<longleftrightarrow>
     0 < ID student \<and> ID student = k \<and> Name student \<noteq> [] \<and> Email student \<noteq> [] \<and>
     0 < Age student"

definition unique_ids :: "store \<Rightarrow> bool" where
  "unique_ids students \<longleftrightarrow>
     (\<forall>j k a b. fmlookup students j = Some a \<and> fmlookup students k = Some b \<and> ID a = ID b
        \<longrightarrow> j = k)"

definition store_inv :: "store \<Rightarrow> bool" where
  "store_inv students \<longleftrightarrow> fmpred well_formed students \<and> unique_ids students"

subsection \<open>Concrete requests and bodies used to run the handlers\<close>

text \<open>Decoded request bodies; \<open>bob\<close> carries an \<open>id\<close> of its own in the payload.\<close>

definition alice :: Student where
  "alice = \<lparr>ID = 0, Name = ''Alice'', Age = 20, Email = ''alice@example.com''\<rparr>"

definition bob :: Student where
  "bob = \<lparr>ID = 99, Name = ''Bob'', Age = 22, Email = ''bob@example.com''\<rparr>"

definition carol :: Student where
  "carol = \<lparr>ID = 0, Name = ''Carol'', Age = 21, Email = ''carol@example.com''\<rparr>"

definition dave :: Student where
  "dave = \<lparr>ID = 0, Name = ''Dave'', Age = 23, Email = ''dave@example.com''\<rparr>"

text \<open>The table after three creates, and after the student with id 1 is then deleted.\<close>

definition three_students :: store where
  "three_students =
     snd (createStudent (snd (createStudent (snd (createStudent fmempty (Some alice)))
       (Some bob))) (Some carol))"

definition after_delete :: store where
  "after_delete = snd (deleteStudent three_students (Some 1))"

text \<open>
  The lines of the streaming scenarios and what \<^verbatim>\<open>json.Unmarshal\<close> makes of them: the
  first four are objects of the chunk shape, \<^verbatim>\<open>not-json\<close> is rejected.
\<close>

definition hello_line :: string where
  \<open>hello_line = ''{"response":"Hello ","done":false}''\<close>

definition world_line :: string where
  \<open>world_line = ''{"response":"world.","done":true}''\<close>

definition ignored_line :: string where
  \<open>ignored_line = ''{"response":"ignored","done":false}''\<close>

definition partial_line :: string where
  \<open>partial_line = ''{"response":"partial","done":false}''\<close>

definition scenario_unmarshal :: "string \<Rightarrow> chunk option" where
  "scenario_unmarshal line =
     (if line = hello_line then Some \<lparr>Response = ''Hello '', Done = False\<rparr>
      else if line = world_line then Some \<lparr>Response = ''world.'', Done = True\<rparr>
      else if line = ignored_line then Some \<lparr>Response = ''ignored'', Done = False\<rparr>
      else if line = partial_line then Some \<lparr>Response = ''partial'', Done = False\<rparr>
      else None)"

text \<open>Upstream outcomes, the same for every prompt.\<close>

definition hello_world_stream :: "string \<Rightarrow> upstream" where
  "hello_world_stream p = Responded 200 [Token hello_line, Token world_line, Token ignored_line]"

definition partial_stream :: "string \<Rightarrow> upstream" where
  "partial_stream p = Responded 200 [Token partial_line]"

definition interrupted_stream :: "string \<Rightarrow> upstream" where
  "interrupted_stream p = Responded 200 [Token partial_line, ReadError]"

text \<open>
  A connection cut in the middle of the second line: the scanner latches the error and
  delivers the unterminated rest of its buffer as a last token.
\<close>

definition cut_line :: string where
  \<open>cut_line = ''{"response":"par''\<close>

definition cut_stream :: "string \<Rightarrow> upstream" where
  "cut_stream p = Responded 200 [Token partial_line, ReadError, Token cut_line]"

definition not_json_stream :: "string \<Rightarrow> upstream" where
  "not_json_stream p = Responded 200 [Token hello_line, Token ''not-json'', Token world_line]"

definition unavailable_503 :: "string \<Rightarrow> upstream" where
  "unavailable_503 p = Responded 503 [Token hello_line, Token world_line]"

text \<open>
  The concatenation of the chunks of a body: the \<open>Response\<close> of every line that
  unmarshals, in order.
\<close>

definition response_text :: "(string \<Rightarrow> chunk option) \<Rightarrow> event \<Rightarrow> string" where
  "response_text unmarshal ev =
     (case ev of
        ReadError \<Rightarrow> []
      | Token line \<Rightarrow> (case unmarshal line of None \<Rightarrow> [] | Some chunk \<Rightarrow> Response chunk))"

definition concat_responses :: "(string \<Rightarrow> chunk option) \<Rightarrow> event list \<Rightarrow> string" where
  "concat_responses unmarshal body = concat (map (response_text unmarshal) body)"

text \<open>A line that unmarshals into a chunk that does not end the stream.\<close>

definition continues :: "(string \<Rightarrow> chunk option) \<Rightarrow> event \<Rightarrow> bool" where
  "continues unmarshal ev =
     (case ev of
        ReadError \<Rightarrow> True
      | Token line \<Rightarrow> (case unmarshal line of None \<Rightarrow> False | Some chunk \<Rightarrow> \<not> Done chunk))"

text \<open>A line that \<^verbatim>\<open>json.Unmarshal\<close> rejects, and a line that unmarshals into a done chunk.\<close>

definition rejected :: "(string \<Rightarrow> chunk option) \<Rightarrow> event \<Rightarrow> bool" where
  "rejected unmarshal ev =
     (case ev of ReadError \<Rightarrow> False | Token line \<Rightarrow> unmarshal line = None)"

definition ends_stream :: "(string \<Rightarrow> chunk option) \<Rightarrow> event \<Rightarrow> bool" where
  "ends_stream unmarshal ev =
     (case ev of
        ReadError \<Rightarrow> False
      | Token line \<Rightarrow> (case unmarshal line of None \<Rightarrow> False | Some chunk \<Rightarrow> Done chunk))"


section \<open>Facts about the concrete tables and lines\<close>

lemma three_students_eq:
  "three_students =
     fmupd 3 (carol\<lparr>ID := 3\<rparr>) (fmupd 2 (bob\<lparr>ID := 2\<rparr>) (fmupd 1 (alice\<lparr>ID := 1\<rparr>) fmempty))"
  by (simp add: three_students_def createStudent_def invalid_def len_def alice_def bob_def
      carol_def fcard_finsert_if fcard_fempty Let_def)

lemma three_students_2: "fmlookup three_students 2 = Some (bob\<lparr>ID := 2\<rparr>)"
  by (simp add: three_students_eq)

lemma three_students_3: "fmlookup three_students 3 = Some (carol\<lparr>ID := 3\<rparr>)"
  by (simp add: three_students_eq)

lemma three_students_7: "fmlookup three_students 7 = None"
  by (simp add: three_students_eq)

lemma after_delete_eq:
  "after_delete = fmdrop 1 three_students"
  by (simp add: after_delete_def deleteStudent_def three_students_eq)

lemma len_after_delete: "len after_delete = 2"
  by (simp add: len_def after_delete_eq three_students_eq fcard_finsert_if fcard_fempty)

lemma reachable_three: "reachable three_students"
  unfolding three_students_def by (intro reachable.intros)

lemma reachable_after_delete: "reachable after_delete"
  unfolding after_delete_def by (intro reachable.intros reachable_three)

lemma create_after_delete:
  "createStudent after_delete (Some dave) =
     (Inr (Created (dave\<lparr>ID := 3\<rparr>)), fmupd 3 (dave\<lparr>ID := 3\<rparr>) after_delete)"
  by (simp add: createStudent_def invalid_def len_after_delete Let_def dave_def)

lemma bob_valid: "\<not> invalid (Some bob)"
  by (simp add: invalid_def bob_def)

lemma scenario_lines:
  "scenario_unmarshal hello_line = Some \<lparr>Response = ''Hello '', Done = False\<rparr>"
  "scenario_unmarshal world_line = Some \<lparr>Response = ''world.'', Done = True\<rparr>"
  "scenario_unmarshal partial_line = Some \<lparr>Response = ''partial'', Done = False\<rparr>"
  "scenario_unmarshal ''not-json'' = None"
  by (simp_all add: scenario_unmarshal_def hello_line_def world_line_def ignored_line_def
      partial_line_def)

section \<open>The record store\<close>

subsection \<open>The invariant\<close>

lemma well_formed_unique: "fmpred well_formed s \<Longrightarrow> unique_ids s"
  unfolding unique_ids_def fmpred_iff well_formed_def by metis

lemma store_inv_iff: "store_inv s \<longleftrightarrow> fmpred well_formed s"
  unfolding store_inv_def using well_formed_unique by blast

lemma len_nonneg: "0 \<le> len s"
  by (simp add: len_def)

lemma store_inv_empty: "store_inv fmempty"
  by (simp add: store_inv_iff)

lemma store_inv_create: "store_inv s \<Longrightarrow> store_inv (snd (createStudent s body))"
  unfolding store_inv_iff createStudent_def Let_def
  using len_nonneg [of s]
  by (cases body) (auto simp: invalid_def well_formed_def intro!: fmpred_upd)

lemma store_inv_update: "store_inv s \<Longrightarrow> store_inv (snd (updateStudent s idp body))"
  unfolding store_inv_iff updateStudent_def Let_def
  by (cases body)
    (auto simp: invalid_def well_formed_def fmpred_iff split: option.splits if_splits)

lemma store_inv_delete: "store_inv s \<Longrightarrow> store_inv (snd (deleteStudent s idp))"
  unfolding store_inv_iff deleteStudent_def
  by (auto split: option.splits)

lemma getStudents_store: "snd (getStudents s) = s"
  by (simp add: getStudents_def)

lemma getStudent_store: "snd (getStudent s idp) = s"
  by (simp add: getStudent_def split: option.splits)

lemma getStudentSummary_store: "fst (snd (getStudentSummary s idp client_Do unmarshal)) = s"
  by (simp add: getStudentSummary_def split: option.splits upstream.splits prod.splits)

lemma reachable_store_inv: "reachable s \<Longrightarrow> store_inv s"
  by (induction rule: reachable.induct)
    (simp_all add: store_inv_empty store_inv_create store_inv_update store_inv_delete
       getStudents_store getStudent_store getStudentSummary_store)

text \<open>
  Claim C6. Every stored student has an id above zero that is the key it is stored under,
  ids are unique among the stored students, and name and email are non-empty with an age
  above zero: this holds of the empty table the program starts with, and each of
  \<^verbatim>\<open>createStudent\<close>, \<^verbatim>\<open>getStudent\<close>, \<^verbatim>\<open>getStudents\<close>, \<^verbatim>\<open>updateStudent\<close> and
  \<^verbatim>\<open>deleteStudent\<close> leaves a table that satisfies it, whatever the request.
\<close>

theorem store_inv_preserved:
  "store_inv fmempty \<and>
   (store_inv s \<longrightarrow>
      store_inv (snd (createStudent s body)) \<and>
      store_inv (snd (getStudent s idp)) \<and>
      store_inv (snd (getStudents s)) \<and>
      store_inv (snd (updateStudent s idp body)) \<and>
      store_inv (snd (deleteStudent s idp)))"
  by (simp add: store_inv_empty store_inv_create store_inv_update store_inv_delete
       getStudents_store getStudent_store)

theorem store_inv_preserved_witness:
  "store_inv three_students \<and>
   store_inv (snd (createStudent three_students (Some dave))) \<and>
   store_inv (snd (getStudent three_students (Some 2))) \<and>
   store_inv (snd (getStudents three_students)) \<and>
   store_inv (snd (updateStudent three_students (Some 2) (Some dave))) \<and>
   store_inv (snd (deleteStudent three_students (Some 2)))"
proof -
  have "store_inv three_students"
    by (simp add: three_students_eq store_inv_def unique_ids_def fmpred_iff well_formed_def
        alice_def bob_def carol_def)
  then show ?thesis
    using store_inv_preserved [of three_students "Some dave" "Some 2"] by blast
qed

subsection \<open>The id a create assigns\<close>

text \<open>
  Claim C1. Whenever \<^verbatim>\<open>createStudent\<close> succeeds on a reachable table, deletes included, the
  id it assigns is \<^verbatim>\<open>len(students) + 1\<close>, the returned student is stored under it, and
  among the students in the table when the handler returns it is the only one with that
  id.
\<close>

theorem create_id_unique:
  assumes "reachable s" and "createStudent s body = (Inr r, s')"
  shows "\<exists>student. r = Created student \<and> ID student = len s + 1 \<and>
           fmlookup s' (ID student) = Some student \<and>
           ffilter (\<lambda>e. ID e = ID student) (fmran s') = {|student|}"
proof -
  from assms(2) have valid: "\<not> invalid body"
    by (auto simp: createStudent_def split: if_splits)
  define student where "student = (the body)\<lparr>ID := len s + 1\<rparr>"
  from assms(2) valid have r: "r = Created student" and s': "s' = fmupd (len s + 1) student s"
    by (simp_all add: createStudent_def student_def Let_def)
  have "store_inv s'"
    using store_inv_create [OF reachable_store_inv [OF assms(1)], of body] assms(2) by simp
  then have wf: "fmpred well_formed s'" by (simp add: store_inv_iff)
  have id: "ID student = len s + 1" by (simp add: student_def)
  have look: "fmlookup s' (ID student) = Some student" by (simp add: s' id)
  have "ffilter (\<lambda>e. ID e = ID student) (fmran s') = {|student|}"
  proof (rule fset_eqI)
    fix e
    show "e |\<in>| ffilter (\<lambda>e. ID e = ID student) (fmran s') \<longleftrightarrow> e |\<in>| {|student|}"
    proof
      assume "e |\<in>| ffilter (\<lambda>e. ID e = ID student) (fmran s')"
      then obtain k where k: "fmlookup s' k = Some e" and e: "ID e = ID student"
        by (auto simp: fmlookup_ran_iff)
      from wf k have "ID e = k" by (auto simp: fmpred_iff well_formed_def)
      with e have "k = ID student" by metis
      with k look have "e = student" by (metis option.inject)
      then show "e |\<in>| {|student|}" by simp
    next
      assume "e |\<in>| {|student|}"
      then have "e = student" by simp
      moreover have "student |\<in>| fmran s'" using look by (rule fmranI)
      ultimately show "e |\<in>| ffilter (\<lambda>e. ID e = ID student) (fmran s')"
        by simp
    qed
  qed
  with r id look show ?thesis by blast
qed

theorem create_id_unique_witness:
  "reachable after_delete \<and>
   createStudent after_delete (Some dave) =
     (Inr (Created (dave\<lparr>ID := 3\<rparr>)), fmupd 3 (dave\<lparr>ID := 3\<rparr>) after_delete) \<and>
   ffilter (\<lambda>e. ID e = 3) (fmran (fmupd 3 (dave\<lparr>ID := 3\<rparr>) after_delete)) = {|dave\<lparr>ID := 3\<rparr>|}"
  using create_id_unique [OF reachable_after_delete create_after_delete]
    reachable_after_delete create_after_delete
  by auto

text \<open>
  The id is unique in the table the create leaves because the insert is a map write:
  after a delete, \<^verbatim>\<open>len(students) + 1\<close> can be a key in use, and the student stored there
  is replaced.
\<close>

lemma create_after_delete_replaces:
  "fmlookup after_delete 3 = Some (carol\<lparr>ID := 3\<rparr>) \<and>
   fmlookup (snd (createStudent after_delete (Some dave))) 3 = Some (dave\<lparr>ID := 3\<rparr>) \<and>
   carol\<lparr>ID := 3\<rparr> |\<notin>| fmran (snd (createStudent after_delete (Some dave)))"
  unfolding create_after_delete
  by (simp add: after_delete_eq three_students_eq fmlookup_ran_iff
      alice_def bob_def carol_def dave_def)

subsection \<open>Validation, lookup, update and delete\<close>

text \<open>
  Claim C8. A candidate whose age is zero or negative, or whose name or email is empty, is
  rejected by \<^verbatim>\<open>createStudent\<close> with \<open>ValidationError\<close>, and the table, its size included,
  is the one the handler was given.
\<close>

theorem create_rejects_invalid:
  assumes "Age candidate = 0 \<or> Age candidate < 0 \<or> Name candidate = [] \<or> Email candidate = []"
  shows "createStudent s (Some candidate) = (Inl ValidationError, s) \<and>
         len (snd (createStudent s (Some candidate))) = len s"
  using assms by (auto simp: createStudent_def invalid_def)

theorem create_rejects_invalid_witness:
  "createStudent three_students (Some (alice\<lparr>Age := 0\<rparr>)) = (Inl ValidationError, three_students) \<and>
   createStudent three_students (Some (alice\<lparr>Age := - 5\<rparr>)) = (Inl ValidationError, three_students) \<and>
   createStudent three_students (Some (alice\<lparr>Name := []\<rparr>)) = (Inl ValidationError, three_students) \<and>
   createStudent three_students (Some (alice\<lparr>Email := []\<rparr>)) = (Inl ValidationError, three_students)"
  using create_rejects_invalid [of "alice\<lparr>Age := 0\<rparr>" three_students]
    create_rejects_invalid [of "alice\<lparr>Age := - 5\<rparr>" three_students]
    create_rejects_invalid [of "alice\<lparr>Name := []\<rparr>" three_students]
    create_rejects_invalid [of "alice\<lparr>Email := []\<rparr>" three_students]
  by simp

text \<open>
  Claim C9. \<^verbatim>\<open>getStudent\<close> replies with a student exactly when that student is stored under
  the id, and fails with \<open>NotFoundError\<close> exactly when the id is not a key; after a
  \<^verbatim>\<open>deleteStudent\<close> of the id that succeeded, \<^verbatim>\<open>getStudent\<close> of it fails with
  \<open>NotFoundError\<close>.
\<close>

theorem get_found_iff:
  "(getStudent s (Some i) = (Inr (Found student), s) \<longleftrightarrow> fmlookup s i = Some student) \<and>
   (getStudent s (Some i) = (Inl NotFoundError, s) \<longleftrightarrow> fmlookup s i = None) \<and>
   (fst (deleteStudent s (Some i)) = Inr NoContent \<longrightarrow>
      getStudent (snd (deleteStudent s (Some i))) (Some i) =
        (Inl NotFoundError, snd (deleteStudent s (Some i))))"
  by (auto simp: getStudent_def deleteStudent_def split: option.splits)

theorem get_found_iff_witness:
  "getStudent three_students (Some 2) = (Inr (Found (bob\<lparr>ID := 2\<rparr>)), three_students) \<and>
   getStudent three_students (Some 7) = (Inl NotFoundError, three_students) \<and>
   fst (deleteStudent three_students (Some 2)) = Inr NoContent \<and>
   getStudent (snd (deleteStudent three_students (Some 2))) (Some 2) =
     (Inl NotFoundError, fmdrop 2 three_students)"
proof -
  have d: "deleteStudent three_students (Some 2) = (Inr NoContent, fmdrop 2 three_students)"
    by (simp add: deleteStudent_def three_students_2)
  show ?thesis
    using get_found_iff [of three_students 2 "bob\<lparr>ID := 2\<rparr>"]
      get_found_iff [of three_students 7 bob] three_students_2 three_students_7 d
    by simp
qed

text \<open>
  Claim C7. For a candidate that passes validation, \<^verbatim>\<open>updateStudent\<close> on an id that is a
  key of the table stores the candidate with its \<open>ID\<close> set to the id of the path, whatever
  id the payload carries, and replies with that student, and \<^verbatim>\<open>getStudent\<close> on the same id
  then replies with it; on an id that is not a key it fails with \<open>NotFoundError\<close> and leaves
  the table as it was. (The handler validates before it looks the id up, so a candidate
  that fails validation is answered with \<open>ValidationError\<close> also for an absent id.)
\<close>

theorem update_replaces:
  assumes "\<not> invalid (Some candidate)"
  shows "(fmlookup s i = None \<longrightarrow>
            updateStudent s (Some i) (Some candidate) = (Inl NotFoundError, s)) \<and>
         (fmlookup s i \<noteq> None \<longrightarrow>
            updateStudent s (Some i) (Some candidate) =
              (Inr (Updated (candidate\<lparr>ID := i\<rparr>)), fmupd i (candidate\<lparr>ID := i\<rparr>) s) \<and>
            getStudent (snd (updateStudent s (Some i) (Some candidate))) (Some i) =
              (Inr (Found (candidate\<lparr>ID := i\<rparr>)), fmupd i (candidate\<lparr>ID := i\<rparr>) s))"
  using assms by (auto simp: updateStudent_def getStudent_def Let_def)

theorem update_replaces_witness:
  "\<not> invalid (Some bob) \<and> fmlookup three_students 7 = None \<and>
   updateStudent three_students (Some 7) (Some bob) = (Inl NotFoundError, three_students) \<and>
   fmlookup three_students 3 = Some (carol\<lparr>ID := 3\<rparr>) \<and> ID bob = 99 \<and>
   updateStudent three_students (Some 3) (Some bob) =
     (Inr (Updated (bob\<lparr>ID := 3\<rparr>)), fmupd 3 (bob\<lparr>ID := 3\<rparr>) three_students) \<and>
   getStudent (snd (updateStudent three_students (Some 3) (Some bob))) (Some 3) =
     (Inr (Found (bob\<lparr>ID := 3\<rparr>)), fmupd 3 (bob\<lparr>ID := 3\<rparr>) three_students)"
proof -
  have present: "fmlookup three_students 3 \<noteq> None"
    using three_students_3 by simp
  have payload: "ID bob = 99"
    by (simp add: bob_def)
  from update_replaces [OF bob_valid, of three_students 7] three_students_7
  have absent_case:
    "updateStudent three_students (Some 7) (Some bob) = (Inl NotFoundError, three_students)"
    by blast
  from update_replaces [OF bob_valid, of three_students 3] present
  have present_case:
    "updateStudent three_students (Some 3) (Some bob) =
       (Inr (Updated (bob\<lparr>ID := 3\<rparr>)), fmupd 3 (bob\<lparr>ID := 3\<rparr>) three_students) \<and>
     getStudent (snd (updateStudent three_students (Some 3) (Some bob))) (Some 3) =
       (Inr (Found (bob\<lparr>ID := 3\<rparr>)), fmupd 3 (bob\<lparr>ID := 3\<rparr>) three_students)"
    by blast
  from bob_valid three_students_7 absent_case three_students_3 payload present_case
  show ?thesis by blast
qed

text \<open>
  Claim C10. \<^verbatim>\<open>updateStudent\<close> and \<^verbatim>\<open>deleteStudent\<close> of an id leave the entry of every other
  key as it was (whether they succeed or fail), and a \<^verbatim>\<open>deleteStudent\<close> that succeeds found
  the id in the table and leaves the table without exactly that key.
\<close>

theorem update_delete_frame:
  assumes "k \<noteq> i"
  shows "fmlookup (snd (updateStudent s (Some i) body)) k = fmlookup s k \<and>
         fmlookup (snd (deleteStudent s (Some i))) k = fmlookup s k \<and>
         (fst (deleteStudent s (Some i)) = Inr NoContent \<longrightarrow>
            fmlookup s i \<noteq> None \<and> fmlookup (snd (deleteStudent s (Some i))) i = None \<and>
            snd (deleteStudent s (Some i)) = fmdrop i s)"
  using assms
  by (auto simp: updateStudent_def deleteStudent_def Let_def split: option.splits)

theorem update_delete_frame_witness:
  "(3::int) \<noteq> 2 \<and>
   fst (updateStudent three_students (Some 2) (Some dave)) = Inr (Updated (dave\<lparr>ID := 2\<rparr>)) \<and>
   fmlookup (snd (updateStudent three_students (Some 2) (Some dave))) 3 = Some (carol\<lparr>ID := 3\<rparr>) \<and>
   fst (deleteStudent three_students (Some 2)) = Inr NoContent \<and>
   fmlookup (snd (deleteStudent three_students (Some 2))) 3 = Some (carol\<lparr>ID := 3\<rparr>) \<and>
   fmlookup (snd (deleteStudent three_students (Some 2))) 2 = None"
proof -
  have n: "(3::int) \<noteq> 2" by simp
  have u: "fst (updateStudent three_students (Some 2) (Some dave)) = Inr (Updated (dave\<lparr>ID := 2\<rparr>))"
    by (simp add: updateStudent_def three_students_2 invalid_def dave_def Let_def)
  have d: "fst (deleteStudent three_students (Some 2)) = Inr NoContent"
    by (simp add: deleteStudent_def three_students_2)
  show ?thesis
    using update_delete_frame [OF n, of three_students "Some dave"] u d three_students_3
    by simp
qed

section \<open>The summary handler\<close>

subsection \<open>The scan loop\<close>

lemma read_chunks_Nil:
  "read_chunks unmarshal (Scanner [] e) acc = after_loop (Scanner [] e) acc"
  by (simp add: read_chunks.simps [of _ "Scanner [] e"])

lemma read_chunks_ReadError:
  "read_chunks unmarshal (Scanner (ReadError # es) e) acc =
     read_chunks unmarshal (Scanner es True) acc"
  by (simp add: read_chunks.simps [of _ "Scanner (ReadError # es) e"]
      read_chunks.simps [of _ "Scanner es True"])

lemma read_chunks_Token:
  "read_chunks unmarshal (Scanner (Token line # es) e) acc =
     (case unmarshal line of
        None \<Rightarrow> (Inl StreamDecodeError, Scanner es e)
      | Some chunk \<Rightarrow>
          if Done chunk then after_loop (Scanner es e) (acc @ Response chunk)
          else read_chunks unmarshal (Scanner es e) (acc @ Response chunk))"
  by (simp add: read_chunks.simps [of _ "Scanner (Token line # es) e"])

lemma read_chunks_continue:
  assumes "\<forall>ev \<in> set pre. continues unmarshal ev"
  shows "read_chunks unmarshal (Scanner (pre @ rest) e) acc =
           read_chunks unmarshal (Scanner rest (e \<or> ReadError \<in> set pre))
             (acc @ concat_responses unmarshal pre)"
  using assms
proof (induction pre arbitrary: e acc)
  case Nil
  then show ?case by (simp add: concat_responses_def)
next
  case (Cons ev pre)
  show ?case
  proof (cases ev)
    case (Token line)
    with Cons.prems obtain c where c: "unmarshal line = Some c" "\<not> Done c"
      by (auto simp: continues_def split: option.splits)
    have "read_chunks unmarshal (Scanner ((ev # pre) @ rest) e) acc =
            read_chunks unmarshal (Scanner (pre @ rest) e) (acc @ Response c)"
      by (simp add: Token read_chunks_Token c)
    also have "\<dots> = read_chunks unmarshal (Scanner rest (e \<or> ReadError \<in> set pre))
            ((acc @ Response c) @ concat_responses unmarshal pre)"
      using Cons.prems by (intro Cons.IH) simp
    finally show ?thesis
      by (simp add: Token concat_responses_def response_text_def c)
  next
    case ReadError
    have "read_chunks unmarshal (Scanner ((ev # pre) @ rest) e) acc =
            read_chunks unmarshal (Scanner (pre @ rest) True) acc"
      by (simp add: ReadError read_chunks_ReadError)
    also have "\<dots> = read_chunks unmarshal (Scanner rest (True \<or> ReadError \<in> set pre))
            (acc @ concat_responses unmarshal pre)"
      using Cons.prems by (intro Cons.IH) simp
    finally show ?thesis
      by (simp add: ReadError concat_responses_def response_text_def)
  qed
qed

lemma chunks_continue:
  assumes "map unmarshal lines = map Some chunks" and "\<forall>c \<in> set chunks. \<not> Done c"
  shows "(\<forall>ev \<in> set (map Token lines). continues unmarshal ev) \<and>
         concat_responses unmarshal (map Token lines) = concat (map Response chunks)"
  using assms
proof (induction lines arbitrary: chunks)
  case Nil
  then show ?case by (simp add: concat_responses_def)
next
  case (Cons line lines)
  then obtain c cs where cs: "chunks = c # cs" "unmarshal line = Some c"
    "map unmarshal lines = map Some cs"
    by (cases chunks) auto
  with Cons.prems have "\<not> Done c" and "\<forall>c \<in> set cs. \<not> Done c" by simp_all
  with Cons.IH [OF cs(3)] cs show ?case
    by (simp add: concat_responses_def response_text_def continues_def)
qed

lemma summary_reads:
  assumes "fmlookup s i = Some student"
    and "client_Do (prompt student) = Responded 200 body"
  shows "getStudentSummary s (Some i) client_Do unmarshal =
           (fst (read_chunks unmarshal (Scanner body False) []), s,
            Some (pending (snd (read_chunks unmarshal (Scanner body False) []))))"
  using assms by (simp add: getStudentSummary_def split: prod.splits)

subsection \<open>The status check\<close>

text \<open>
  Claim C4. When the upstream answers with a status code other than 200, the handler fails
  with \<open>UpstreamStatusError\<close> carrying that code, whatever the body and whatever
  \<open>unmarshal\<close> would do, and the whole body is left unread.
\<close>

theorem summary_upstream_status:
  assumes "fmlookup s i = Some student"
    and "client_Do (prompt student) = Responded code body"
    and "code \<noteq> 200"
  shows "getStudentSummary s (Some i) client_Do unmarshal =
           (Inl (UpstreamStatusError code), s, Some body)"
  using assms by (simp add: getStudentSummary_def)

theorem summary_upstream_status_witness:
  "fmlookup three_students 2 = Some (bob\<lparr>ID := 2\<rparr>) \<and>
   getStudentSummary three_students (Some 2) unavailable_503 scenario_unmarshal =
     (Inl (UpstreamStatusError 503), three_students, Some [Token hello_line, Token world_line]) \<and>
   http_status (UpstreamStatusError 503) = 500 \<and>
   http_message (UpstreamStatusError 503) = ''Ollama returned status 503''"
proof -
  have body: "unavailable_503 (prompt (bob\<lparr>ID := 2\<rparr>)) =
      Responded 503 [Token hello_line, Token world_line]"
    by (simp add: unavailable_503_def)
  have code: "(503::int) \<noteq> 200"
    by simp
  have message: "http_message (UpstreamStatusError 503) = ''Ollama returned status 503''"
    by code_simp
  from summary_upstream_status [of three_students 2 "bob\<lparr>ID := 2\<rparr>" unavailable_503,
      OF three_students_2 body code]
    three_students_2 message
  show ?thesis by simp
qed

text \<open>
  The second version of the handler has no status check: the body of a 503 answer is
  scanned and unmarshalled like any other.
\<close>

lemma part_000_reads_any_status:
  "getStudentSummary_part_000 three_students (Some 2) unavailable_503 scenario_unmarshal =
     (Inr (Summary ''Hello world.''), three_students, Some [])"
  by (simp add: getStudentSummary_part_000_def three_students_2 unavailable_503_def
      read_chunks_Token scenario_lines after_loop_def)

subsection \<open>The reply of a stream\<close>

text \<open>
  Claim C2. When the upstream answers 200 with a body whose lines unmarshal into chunks
  that are not done, followed by a line that unmarshals into a chunk that is done, the
  handler replies with the concatenation of the \<open>Response\<close> of these chunks, the done one
  included, and what follows the done line in the body is left unread: it is never
  scanned, never unmarshalled (nothing is assumed of \<open>unmarshal\<close> on it) and adds nothing
  to the reply. On the stream of the scenario the reply is \<^verbatim>\<open>Hello world.\<close> and the third
  line is left in the body.
\<close>

theorem summary_stops_at_done:
  assumes "fmlookup s i = Some student"
    and "client_Do (prompt student) = Responded 200 (map Token lines @ Token terminal # rest)"
    and "map unmarshal lines = map Some chunks"
    and "\<forall>c \<in> set chunks. \<not> Done c"
    and "unmarshal terminal = Some final"
    and "Done final"
  shows "getStudentSummary s (Some i) client_Do unmarshal =
           (Inr (Summary (concat (map Response (chunks @ [final])))), s, Some rest)"
proof -
  from chunks_continue [OF assms(3,4)]
  have pre: "\<forall>ev \<in> set (map Token lines). continues unmarshal ev"
    and resp: "concat_responses unmarshal (map Token lines) = concat (map Response chunks)"
    by simp_all
  have "read_chunks unmarshal (Scanner (map Token lines @ Token terminal # rest) False) [] =
          read_chunks unmarshal (Scanner (Token terminal # rest) False) (concat (map Response chunks))"
  proof -
    have "ReadError \<notin> set (map Token lines)" by auto
    with read_chunks_continue [OF pre, of "Token terminal # rest" False "[]"] resp
    show ?thesis by simp
  qed
  also have "\<dots> = (Inr (Summary (concat (map Response chunks) @ Response final)), Scanner rest False)"
    by (simp add: read_chunks_Token assms(5,6) after_loop_def)
  finally show ?thesis
    by (simp add: summary_reads [of s i student client_Do, OF assms(1,2)])
qed

theorem summary_stops_at_done_witness:
  "fmlookup three_students 2 = Some (bob\<lparr>ID := 2\<rparr>) \<and>
   scenario_unmarshal hello_line = Some \<lparr>Response = ''Hello '', Done = False\<rparr> \<and>
   scenario_unmarshal world_line = Some \<lparr>Response = ''world.'', Done = True\<rparr> \<and>
   getStudentSummary three_students (Some 2) hello_world_stream scenario_unmarshal =
     (Inr (Summary ''Hello world.''), three_students, Some [Token ignored_line])"
proof -
  have body: "hello_world_stream (prompt (bob\<lparr>ID := 2\<rparr>)) =
      Responded 200 (map Token [hello_line] @ Token world_line # [Token ignored_line])"
    by (simp add: hello_world_stream_def)
  have chunks: "map scenario_unmarshal [hello_line] = map Some [\<lparr>Response = ''Hello '', Done = False\<rparr>]"
    by (simp add: scenario_lines)
  have running: "\<forall>c \<in> set [\<lparr>Response = ''Hello '', Done = False\<rparr>]. \<not> Done c"
    by simp
  have final: "Done \<lparr>Response = ''world.'', Done = True\<rparr>"
    by simp
  from summary_stops_at_done [of three_students 2 "bob\<lparr>ID := 2\<rparr>" hello_world_stream,
      OF three_students_2 body chunks running scenario_lines(2) final]
  have "getStudentSummary three_students (Some 2) hello_world_stream scenario_unmarshal =
     (Inr (Summary ''Hello world.''), three_students, Some [Token ignored_line])"
    by simp
  with three_students_2 scenario_lines(1,2) show ?thesis by blast
qed

text \<open>
  Claim C5. When the upstream answers 200 and a line that \<^verbatim>\<open>json.Unmarshal\<close> rejects comes
  before any chunk that is done, the handler fails with \<open>StreamDecodeError\<close>: the result
  carries none of the text accumulated from the lines before it, and the lines after it
  are left unread.
\<close>

theorem summary_decode_error:
  assumes "fmlookup s i = Some student"
    and "client_Do (prompt student) = Responded 200 (pre @ Token bad # rest)"
    and "\<forall>ev \<in> set pre. continues unmarshal ev"
    and "unmarshal bad = None"
  shows "getStudentSummary s (Some i) client_Do unmarshal = (Inl StreamDecodeError, s, Some rest)"
proof -
  have "read_chunks unmarshal (Scanner (pre @ Token bad # rest) False) [] =
          read_chunks unmarshal (Scanner (Token bad # rest) (ReadError \<in> set pre))
            (concat_responses unmarshal pre)"
    using read_chunks_continue [OF assms(3), of "Token bad # rest" False "[]"] by simp
  then show ?thesis
    by (simp add: summary_reads [of s i student client_Do, OF assms(1,2)] read_chunks_Token assms(4))
qed

theorem summary_decode_error_witness:
  "fmlookup three_students 2 = Some (bob\<lparr>ID := 2\<rparr>) \<and>
   scenario_unmarshal hello_line = Some \<lparr>Response = ''Hello '', Done = False\<rparr> \<and>
   scenario_unmarshal ''not-json'' = None \<and>
   getStudentSummary three_students (Some 2) not_json_stream scenario_unmarshal =
     (Inl StreamDecodeError, three_students, Some [Token world_line])"
proof -
  have body: "not_json_stream (prompt (bob\<lparr>ID := 2\<rparr>)) =
      Responded 200 ([Token hello_line] @ Token ''not-json'' # [Token world_line])"
    by (simp add: not_json_stream_def)
  have running: "\<forall>ev \<in> set [Token hello_line]. continues scenario_unmarshal ev"
    by (simp add: continues_def scenario_lines)
  from summary_decode_error [of three_students 2 "bob\<lparr>ID := 2\<rparr>" not_json_stream,
      OF three_students_2 body running scenario_lines(4)]
    three_students_2 scenario_lines(1,4)
  show ?thesis by blast
qed

text \<open>
  Claim C3 says that a stream that ends or errors before a chunk with \<open>Done\<close> was seen is
  answered with a failure. The loop leaves when \<^verbatim>\<open>Scan\<close> returns false and the handler then
  looks at \<^verbatim>\<open>scanner.Err()\<close> only, which is nil at the end of the body: a body that closes
  after the one line \<^verbatim>\<open>{"response":"partial","done":false}\<close> is answered with the summary
  \<^verbatim>\<open>partial\<close>.
\<close>

theorem summary_without_done_counterexample:
  "getStudentSummary three_students (Some 2) partial_stream scenario_unmarshal =
     (Inr (Summary ''partial''), three_students, Some [])"
  by (simp add: getStudentSummary_def three_students_2 partial_stream_def read_chunks_Token
      read_chunks_Nil scenario_lines after_loop_def)

lemma continues_iff:
  "continues unmarshal ev \<longleftrightarrow> \<not> rejected unmarshal ev \<and> \<not> ends_stream unmarshal ev"
  by (simp add: continues_def rejected_def ends_stream_def split: event.splits option.splits)

lemma read_chunks_rejected:
  assumes "\<forall>ev \<in> set pre. continues unmarshal ev" and "rejected unmarshal x"
  shows "read_chunks unmarshal (Scanner (pre @ x # rest) False) [] =
           (Inl StreamDecodeError, Scanner rest (ReadError \<in> set pre))"
proof -
  from assms(2) obtain bad where x: "x = Token bad" and bad: "unmarshal bad = None"
    by (cases x) (simp_all add: rejected_def)
  have "read_chunks unmarshal (Scanner (pre @ x # rest) False) [] =
          read_chunks unmarshal (Scanner (x # rest) (ReadError \<in> set pre))
            (concat_responses unmarshal pre)"
    using read_chunks_continue [OF assms(1), of "x # rest" False "[]"] by simp
  then show ?thesis
    by (simp add: x read_chunks_Token bad)
qed

text \<open>
  Claim C3, as the code has it. For a 200 answer in whose body no line unmarshals into a
  done chunk: if some line is rejected by \<^verbatim>\<open>json.Unmarshal\<close> (as the unterminated rest of
  a line cut by a connection error is), the handler fails with \<open>StreamDecodeError\<close>;
  otherwise, if the scanner meets a read error, it fails with \<open>StreamReadError\<close> (status
  500, \<^verbatim>\<open>Error reading Ollama response stream\<close>) and the accumulated text is not returned;
  otherwise the body has ended without an error, all of it has been read, and the handler
  replies with the text accumulated from all its lines as the summary. The table is
  unchanged in each case.
\<close>

theorem summary_without_done:
  assumes "fmlookup s i = Some student"
    and "client_Do (prompt student) = Responded 200 body"
    and "\<forall>ev \<in> set body. \<not> ends_stream unmarshal ev"
  shows "fst (getStudentSummary s (Some i) client_Do unmarshal) =
           (if \<exists>ev \<in> set body. rejected unmarshal ev then Inl StreamDecodeError
            else if ReadError \<in> set body then Inl StreamReadError
            else Inr (Summary (concat_responses unmarshal body))) \<and>
         fst (snd (getStudentSummary s (Some i) client_Do unmarshal)) = s \<and>
         ((\<exists>ev \<in> set body. rejected unmarshal ev) \<or>
          snd (snd (getStudentSummary s (Some i) client_Do unmarshal)) = Some [])"
proof (cases "\<exists>ev \<in> set body. rejected unmarshal ev")
  case True
  then obtain pre x rest where split: "body = pre @ x # rest" and x: "rejected unmarshal x"
    and pre: "\<forall>ev \<in> set pre. \<not> rejected unmarshal ev"
    using split_list_first_prop [of body "rejected unmarshal"] by blast
  from pre assms(3) split have "\<forall>ev \<in> set pre. continues unmarshal ev"
    by (simp add: continues_iff)
  from read_chunks_rejected [OF this x, of rest] split
  have "read_chunks unmarshal (Scanner body False) [] =
          (Inl StreamDecodeError, Scanner rest (ReadError \<in> set pre))"
    by simp
  with True show ?thesis
    by (simp add: summary_reads [of s i student client_Do, OF assms(1,2)])
next
  case False
  with assms(3) have all: "\<forall>ev \<in> set body. continues unmarshal ev"
    by (simp add: continues_iff)
  have "read_chunks unmarshal (Scanner body False) [] =
          read_chunks unmarshal (Scanner [] (ReadError \<in> set body))
            (concat_responses unmarshal body)"
    using read_chunks_continue [OF all, of "[]" False "[]"] by simp
  with False show ?thesis
    by (simp add: summary_reads [of s i student client_Do, OF assms(1,2)] read_chunks_Nil
        after_loop_def)
qed

lemma cut_line_rejected: "scenario_unmarshal cut_line = None"
  by (simp add: scenario_unmarshal_def cut_line_def hello_line_def world_line_def
      ignored_line_def partial_line_def)

theorem summary_without_done_witness:
  "fmlookup three_students 2 = Some (bob\<lparr>ID := 2\<rparr>) \<and>
   scenario_unmarshal partial_line = Some \<lparr>Response = ''partial'', Done = False\<rparr> \<and>
   scenario_unmarshal cut_line = None \<and>
   fst (getStudentSummary three_students (Some 2) partial_stream scenario_unmarshal) =
     Inr (Summary ''partial'') \<and>
   fst (getStudentSummary three_students (Some 2) interrupted_stream scenario_unmarshal) =
     Inl StreamReadError \<and>
   fst (getStudentSummary three_students (Some 2) cut_stream scenario_unmarshal) =
     Inl StreamDecodeError"
proof -
  have closed: "partial_stream (prompt (bob\<lparr>ID := 2\<rparr>)) = Responded 200 [Token partial_line]"
    by (simp add: partial_stream_def)
  have interrupted: "interrupted_stream (prompt (bob\<lparr>ID := 2\<rparr>)) =
      Responded 200 [Token partial_line, ReadError]"
    by (simp add: interrupted_stream_def)
  have cut: "cut_stream (prompt (bob\<lparr>ID := 2\<rparr>)) =
      Responded 200 [Token partial_line, ReadError, Token cut_line]"
    by (simp add: cut_stream_def)
  have no_done: "\<forall>ev \<in> set [Token partial_line]. \<not> ends_stream scenario_unmarshal ev"
    "\<forall>ev \<in> set [Token partial_line, ReadError]. \<not> ends_stream scenario_unmarshal ev"
    "\<forall>ev \<in> set [Token partial_line, ReadError, Token cut_line].
       \<not> ends_stream scenario_unmarshal ev"
    by (simp_all add: ends_stream_def scenario_lines cut_line_rejected)
  from summary_without_done [of three_students 2 "bob\<lparr>ID := 2\<rparr>" partial_stream,
      OF three_students_2 closed no_done(1)]
  have a: "fst (getStudentSummary three_students (Some 2) partial_stream scenario_unmarshal) =
     Inr (Summary ''partial'')"
    by (simp add: rejected_def concat_responses_def response_text_def scenario_lines)
  from summary_without_done [of three_students 2 "bob\<lparr>ID := 2\<rparr>" interrupted_stream,
      OF three_students_2 interrupted no_done(2)]
  have b: "fst (getStudentSummary three_students (Some 2) interrupted_stream scenario_unmarshal) =
     Inl StreamReadError"
    by (simp add: rejected_def scenario_lines)
  from summary_without_done [of three_students 2 "bob\<lparr>ID := 2\<rparr>" cut_stream,
      OF three_students_2 cut no_done(3)]
  have c: "fst (getStudentSummary three_students (Some 2) cut_stream scenario_unmarshal) =
     Inl StreamDecodeError"
    by (simp add: rejected_def scenario_lines cut_line_rejected)
  from three_students_2 scenario_lines(3) cut_line_rejected a b c show ?thesis by blast
qed

end
